theory Spec2Isabelle
  imports Main
begin

section \<open>The console widget of src/notebook/console/widget.ts\<close>

text \<open>
  The widget is single-threaded and event-driven: every handler runs to completion, and a
  promise continuation is a later event. A handler is therefore a function from the widget
  state to the next state, and a reply of the kernel is an event of its own, carrying the
  values its closure captured when the request was issued.

  A handler that throws returns \<open>Inl\<close> with the error and the state at the throw.
  Numbers of the source are modelled as \<open>nat\<close> (indices, counters) and \<open>int\<close>
  (pixel coordinates); strings as \<open>string\<close>, one \<open>char\<close> per code unit below 256.
\<close>

subsection \<open>JavaScript values\<close>

datatype js_error = TypeError

datatype 'a promise = Resolved 'a | Rejected

text \<open>A value stored in a MIME bundle: a string, or \<open>undefined\<close>.\<close>

datatype jsval = Undefined | Str string

type_synonym MimeBundle = "string \<rightharpoonup> jsval"

definition js_get :: "MimeBundle \<Rightarrow> string \<Rightarrow> jsval" where
  \<comment> \<open>\<open>bundle[key]\<close>: a missing key reads as \<open>undefined\<close>.\<close>
  "js_get bundle key = (case bundle key of None \<Rightarrow> Undefined | Some v \<Rightarrow> v)"

definition truthy :: "jsval \<Rightarrow> bool" where
  "truthy v = (case v of Undefined \<Rightarrow> False | Str s \<Rightarrow> s \<noteq> [])"

definition js_or :: "jsval \<Rightarrow> jsval \<Rightarrow> jsval" where
  \<comment> \<open>\<open>a || b\<close>\<close>
  "js_or a b = (if truthy a then a else b)"

fun index :: "'a list \<Rightarrow> nat \<Rightarrow> 'a option" where
  \<comment> \<open>\<open>xs[i]\<close> on an array or a string: \<open>undefined\<close> out of range.\<close>
  "index [] i = None"
| "index (x # xs) 0 = Some x"
| "index (x # xs) (Suc i) = index xs i"

fun split_lines :: "string \<Rightarrow> string list" where
  \<comment> \<open>\<open>s.split('\n')\<close>\<close>
  "split_lines [] = [[]]"
| "split_lines (c # cs) =
     (if c = CHR 0x0A then [] # split_lines cs
      else (case split_lines cs of [] \<Rightarrow> [[c]] | l # ls \<Rightarrow> (c # l) # ls))"

definition is_space :: "char \<Rightarrow> bool" where
  \<comment> \<open>The characters \<open>\s\<close> matches, among the code units below 256.\<close>
  "is_space c = (c \<in> set [CHR 0x09, CHR 0x0A, CHR 0x0B, CHR 0x0C, CHR 0x0D, CHR 0x20, CHR 0xA0])"

definition matches_nonspace :: "char \<Rightarrow> bool" where
  \<comment> \<open>\<open>c.match(/\S/)\<close> on a one-character string\<close>
  "matches_nonspace c = (\<not> is_space c)"

subsection \<open>Cells\<close>

datatype cell_kind = RawCell | CodeCell

text \<open>
  A cell widget of the layout. \<open>source\<close> is the text of the cell's model, which is the
  content of its editor's document; \<open>doc_cursor\<close> is the index of the document's cursor;
  \<open>signals\<close> says whether the editor's signals are connected to the console's handlers.
\<close>

record cell =
  kind :: cell_kind
  classes :: "string list"
  source :: string
  doc_cursor :: nat
  readOnly :: bool
  trusted :: bool
  cell_mimetype :: string
  signals :: bool

definition BANNER_CLASS :: string where
  "BANNER_CLASS = ''jp-Console-banner''"

definition createBanner :: cell where
  \<comment> \<open>Modelled from the spec: the cell classes live in ../cells; a new cell is empty and editable.\<close>
  "createBanner = \<lparr>kind = RawCell, classes = [], source = [], doc_cursor = 0, readOnly = False,
     trusted = False, cell_mimetype = [], signals = False\<rparr>"

definition createPrompt :: cell where
  \<comment> \<open>Modelled from the spec: the cell classes live in ../cells; a new cell is empty and editable.\<close>
  "createPrompt = \<lparr>kind = CodeCell, classes = [], source = [], doc_cursor = 0, readOnly = False,
     trusted = False, cell_mimetype = [], signals = False\<rparr>"

record cell_json =
  cell_type :: cell_kind
  json_source :: string
  json_trusted :: bool

definition toJSON :: "cell \<Rightarrow> cell_json" where
  \<comment> \<open>Modelled from the spec: the persisted record of an entry is the entry's own
      capability (../cells); the record keeps the cell's kind, text and trust.\<close>
  "toJSON c = \<lparr>cell_type = kind c, json_source = source c, json_trusted = trusted c\<rparr>"

subsection \<open>History\<close>

record history =
  items :: "string list"
  hcursor :: nat

definition createHistory :: history where
  \<comment> \<open>Modelled from the spec: ConsoleHistory lives in ./history.\<close>
  "createHistory = \<lparr>items = [], hcursor = 0\<rparr>"

definition push :: "string \<Rightarrow> history \<Rightarrow> history" where
  \<comment> \<open>Modelled from the spec: ConsoleHistory lives in ./history. Appends unconditionally and
      resets the cursor to the length.\<close>
  "push text h = \<lparr>items = items h @ [text], hcursor = Suc (length (items h))\<rparr>"

definition history_back :: "history \<Rightarrow> string option \<times> history" where
  \<comment> \<open>Modelled from the spec: ConsoleHistory lives in ./history. Steps the cursor down and
      yields the entry there; at the oldest entry yields nothing.\<close>
  "history_back h =
     (if 0 < hcursor h then (index (items h) (hcursor h - 1), h\<lparr>hcursor := hcursor h - 1\<rparr>)
      else (None, h))"

definition history_forward :: "history \<Rightarrow> string option \<times> history" where
  \<comment> \<open>Modelled from the spec: ConsoleHistory lives in ./history. Steps the cursor up and
      yields the entry there, the empty string on reaching the present; at the present
      yields nothing.\<close>
  "history_forward h =
     (if hcursor h < length (items h)
      then (if Suc (hcursor h) = length (items h) then Some []
            else index (items h) (Suc (hcursor h)), h\<lparr>hcursor := Suc (hcursor h)\<rparr>)
      else (None, h))"

subsection \<open>Editor events and kernel messages\<close>

record ITextChange =
  tc_newValue :: string
  tc_line :: nat
  tc_ch :: nat
  tc_top :: int
  tc_left :: int
  tc_chHeight :: int

record ICompletionRequest =
  cr_currentValue :: string
  cr_line :: nat
  cr_ch :: nat

datatype EdgeLocation = Top | Bottom

record ICompleteReply =
  c_status :: string
  c_matches :: "string list"
  c_cursor_start :: nat
  c_cursor_end :: nat

record IInspectReply =
  i_status :: string
  i_found :: bool
  i_data :: MimeBundle

text \<open>The requests the widget has sent to the kernel, oldest first.\<close>

datatype kernel_call =
    KernelInfo
  | Execute string
  | Inspect "string option" nat nat
  | Complete "string option" nat

subsection \<open>Completion model and tooltip\<close>

text \<open>
  The completion model is an object of its own: the reply continuation of a completion
  request holds a reference to it, so it outlives the widget's \<open>_completion\<close> field.
  Its properties are modelled as plain fields (the class lives in ../completion).
\<close>

record CompletionModel =
  options :: "string list option"
  cursor :: "(nat \<times> nat) option"
  original :: "ICompletionRequest option"
  current :: "ITextChange option"
  model_isDisposed :: bool

definition createCompletion :: CompletionModel where
  "createCompletion = \<lparr>options = None, cursor = None, original = None, current = None,
     model_isDisposed = False\<rparr>"

record ConsoleTooltip =
  rect_top :: int
  rect_left :: int
  content :: "MimeBundle option"
  maxHeight :: "int option"
  maxWidth :: "int option"
  hidden :: bool

definition createTooltip :: ConsoleTooltip where
  "createTooltip = \<lparr>rect_top = 0, rect_left = 0, content = None, maxHeight = None,
     maxWidth = None, hidden = True\<rparr>"

record window =
  innerHeight :: int
  innerWidth :: int

subsection \<open>The widget state\<close>

text \<open>
  \<open>layout\<close> is the list of the children of the panel layout; \<open>completion\<close> says whether
  the field \<open>_completion\<close> holds the completion widget (it is null after disposal), and
  \<open>model\<close> is that widget's model object.
\<close>

record ConsoleWidget =
  layout :: "cell list"
  mimetype :: string
  history :: "history option"
  tooltip :: "ConsoleTooltip option"
  completion :: bool
  model :: CompletionModel
  pendingComplete :: nat
  pendingInspect :: nat
  isDisposed :: bool
  kernel_calls :: "kernel_call list"

type_synonym outcome = "(js_error \<times> ConsoleWidget) + ConsoleWidget"

definition prompt :: "ConsoleWidget \<Rightarrow> cell option" where
  \<comment> \<open>The getter \<open>prompt\<close>: the last child, or null.\<close>
  "prompt s = (if layout s = [] then None else Some (last (layout s)))"

definition update_last :: "('a \<Rightarrow> 'a) \<Rightarrow> 'a list \<Rightarrow> 'a list" where
  "update_last f xs = (if xs = [] then [] else butlast xs @ [f (last xs)])"

definition newPrompt :: "ConsoleWidget \<Rightarrow> ConsoleWidget" where
  "newPrompt s =
     s\<lparr>layout := update_last (\<lambda>p. p\<lparr>readOnly := True, signals := False\<rparr>) (layout s)
          @ [createPrompt\<lparr>cell_mimetype := mimetype s, signals := True\<rparr>]\<rparr>"

definition initialize :: "ConsoleWidget \<Rightarrow> ConsoleWidget" where
  \<comment> \<open>The synchronous part: the request for the kernel info.\<close>
  "initialize s = s\<lparr>kernel_calls := kernel_calls s @ [KernelInfo]\<rparr>"

definition constructor :: ConsoleWidget where
  "constructor =
     newPrompt (initialize
       \<lparr>layout = [createBanner\<lparr>classes := [BANNER_CLASS], readOnly := True\<rparr>],
        mimetype = ''text/x-ipython'',
        history = Some createHistory,
        tooltip = Some createTooltip,
        completion = True,
        model = createCompletion,
        pendingComplete = 0,
        pendingInspect = 0,
        isDisposed = False,
        kernel_calls = []\<rparr>)"

subsection \<open>Disposal\<close>

definition super_dispose :: "ConsoleWidget \<Rightarrow> ConsoleWidget" where
  \<comment> \<open>The base class's \<open>dispose\<close> (library code): of its effects the model keeps the one
      this file reads back, the \<open>isDisposed\<close> flag.\<close>
  "super_dispose s = s\<lparr>isDisposed := True\<rparr>"

definition dispose :: "ConsoleWidget \<Rightarrow> outcome" where
  \<comment> \<open>Disposing the completion widget disposes its model.\<close>
  "dispose s =
     (if isDisposed s then Inr s
      else (case tooltip s of
          None \<Rightarrow> Inl (TypeError, s)
        | Some _ \<Rightarrow>
           (let s1 = s\<lparr>tooltip := None\<rparr> in
            case history s1 of
              None \<Rightarrow> Inl (TypeError, s1)
            | Some _ \<Rightarrow>
               (let s2 = s1\<lparr>history := None\<rparr> in
                if \<not> completion s2 then Inl (TypeError, s2)
                else Inr (super_dispose
                  (s2\<lparr>completion := False,
                      model := (model s2)\<lparr>model_isDisposed := True\<rparr>\<rparr>))))))"

subsection \<open>Execution, clearing, serialization\<close>

definition execute_begin :: "ConsoleWidget \<Rightarrow> outcome" where
  \<comment> \<open>\<open>execute\<close> up to the call of the kernel. The cell's own \<open>execute\<close> (../cells) sends
      the source; its effects on the cell's outputs are not part of this file.\<close>
  "execute_begin s =
     (case prompt s of
        None \<Rightarrow> Inl (TypeError, s)
      | Some p \<Rightarrow>
         (let s1 = s\<lparr>layout := update_last (\<lambda>p. p\<lparr>trusted := True\<rparr>) (layout s)\<rparr> in
          case history s1 of
            None \<Rightarrow> Inl (TypeError, s1)
          | Some h \<Rightarrow>
             Inr (s1\<lparr>history := Some (push (source p) h),
                     kernel_calls := kernel_calls s1 @ [Execute (source p)]\<rparr>)))"

definition execute_then :: "unit promise \<Rightarrow> ConsoleWidget \<Rightarrow> ConsoleWidget" where
  \<comment> \<open>The two continuations of the execution promise.\<close>
  "execute_then r s = (case r of Resolved _ \<Rightarrow> newPrompt s | Rejected \<Rightarrow> newPrompt s)"

definition execute :: "unit promise \<Rightarrow> ConsoleWidget \<Rightarrow> outcome" where
  \<comment> \<open>An execution together with its completion, the kernel's answer being \<open>r\<close>.\<close>
  "execute r s = (case execute_begin s of Inl e \<Rightarrow> Inl e | Inr s1 \<Rightarrow> Inr (execute_then r s1))"

definition dispose_child :: "nat \<Rightarrow> cell list \<Rightarrow> cell list" where
  \<comment> \<open>Disposing a child widget removes it from its parent's layout.\<close>
  "dispose_child i l = take i l @ drop (Suc i) l"

function clear_loop :: "nat \<Rightarrow> cell list \<Rightarrow> cell list" where
  \<comment> \<open>\<open>for (let i = 0; i < layout.childCount() - 2; i++) layout.childAt(1).dispose()\<close>:
      the bound is read again at every iteration.\<close>
  "clear_loop i l = (if i + 2 < length l then clear_loop (Suc i) (dispose_child 1 l) else l)"
  by pat_completeness auto
termination
  by (relation "measure (\<lambda>(i, l). length l - i)") (auto simp: dispose_child_def)

declare clear_loop.simps [simp del]

definition clear :: "ConsoleWidget \<Rightarrow> ConsoleWidget" where
  "clear s = newPrompt (s\<lparr>layout := clear_loop 0 (layout s)\<rparr>)"

function serialize_loop :: "nat \<Rightarrow> cell list \<Rightarrow> cell_json list \<Rightarrow> cell_json list" where
  \<comment> \<open>\<open>for (let i = 1; i < layout.childCount(); i++) output.push(childAt(i).model.toJSON())\<close>\<close>
  "serialize_loop i l output =
     (if i < length l then serialize_loop (Suc i) l (output @ [toJSON (l ! i)]) else output)"
  by pat_completeness auto
termination
  by (relation "measure (\<lambda>(i, l, output). length l - i)") auto

declare serialize_loop.simps [simp del]

definition serialize :: "ConsoleWidget \<Rightarrow> cell_json list" where
  "serialize s = serialize_loop 1 (layout s) []"

subsection \<open>Introspection\<close>

definition consoleMime :: string where
  "consoleMime = ''application/vnd.jupyter.console-text''"

definition textMime :: string where
  "textMime = ''text/plain''"

definition processInspectReply :: "MimeBundle \<Rightarrow> MimeBundle" where
  \<comment> \<open>\<open>bundle[consoleMime] = bundle[consoleMime] || bundle[textMime]; return bundle\<close>\<close>
  "processInspectReply bundle =
     bundle(consoleMime \<mapsto> js_or (js_get bundle consoleMime) (js_get bundle textMime))"

definition showTooltip :: "window \<Rightarrow> ITextChange \<Rightarrow> MimeBundle \<Rightarrow> ConsoleWidget \<Rightarrow> outcome" where
  \<comment> \<open>The rendered content is represented by the bundle it is rendered from.\<close>
  "showTooltip w change bundle s =
     (let top = tc_top change + tc_chHeight change;
          left = tc_left change + 1;
          maxHeight = innerHeight w - top - 2;
          maxWidth = innerWidth w - left - 2
      in case tooltip s of
           None \<Rightarrow> Inl (TypeError, s)
         | Some t \<Rightarrow>
            Inr (s\<lparr>tooltip := Some (t\<lparr>rect_top := top, rect_left := left,
                   content := Some bundle, maxHeight := Some maxHeight,
                   maxWidth := Some maxWidth, hidden := False\<rparr>)\<rparr>))"

definition updateTooltip :: "ITextChange \<Rightarrow> ConsoleWidget \<Rightarrow> ConsoleWidget" where
  \<comment> \<open>Issues the request; the continuation captures the new value of \<open>_pendingInspect\<close>.\<close>
  "updateTooltip change s =
     (let line = index (split_lines (tc_newValue change)) (tc_line change)
      in s\<lparr>pendingInspect := Suc (pendingInspect s),
            kernel_calls := kernel_calls s @ [Inspect line (tc_ch change) 0]\<rparr>)"

definition inspect_then ::
  "window \<Rightarrow> nat \<Rightarrow> ITextChange \<Rightarrow> IInspectReply promise \<Rightarrow> ConsoleWidget \<Rightarrow> outcome" where
  \<comment> \<open>The continuation of an inspect request that captured \<open>captured\<close> and \<open>change\<close>.\<close>
  "inspect_then w captured change r s =
     (case r of
        Rejected \<Rightarrow> Inr s
      | Resolved v \<Rightarrow>
         if isDisposed s then Inr s
         else if captured \<noteq> pendingInspect s then Inr s
         else if i_status v \<noteq> ''ok'' \<or> \<not> i_found v then Inr s
         else showTooltip w change (processInspectReply (i_data v)) s)"

subsection \<open>Text changes\<close>

definition char_before :: "string \<Rightarrow> nat \<Rightarrow> char option" where
  \<comment> \<open>\<open>line[ch - 1]\<close>\<close>
  "char_before line ch = (if ch = 0 then None else index line (ch - 1))"

definition nonspace_before :: "string \<Rightarrow> nat \<Rightarrow> bool" where
  \<comment> \<open>\<open>line[ch - 1] && line[ch - 1].match(/\S/)\<close>\<close>
  "nonspace_before line ch =
     (case char_before line ch of None \<Rightarrow> False | Some c \<Rightarrow> matches_nonspace c)"

definition onTextChange :: "ITextChange \<Rightarrow> ConsoleWidget \<Rightarrow> outcome" where
  "onTextChange change s =
     (if \<not> completion s then Inl (TypeError, s)
      else case index (split_lines (tc_newValue change)) (tc_line change) of
        None \<Rightarrow> Inl (TypeError, s)
      | Some line \<Rightarrow>
         if nonspace_before line (tc_ch change) then
           (let s1 = (if original (model s) \<noteq> None
                      then s\<lparr>model := (model s)\<lparr>current := Some change\<rparr>\<rparr> else s)
            in if tc_newValue change \<noteq> [] then Inr (updateTooltip change s1) else Inr s1)
         else
           (case tooltip s of
              None \<Rightarrow> Inl (TypeError, s)
            | Some t \<Rightarrow>
               Inr (s\<lparr>tooltip := Some (t\<lparr>hidden := True\<rparr>),
                      model := (model s)\<lparr>options := None, original := None, cursor := None\<rparr>\<rparr>)))"

subsection \<open>Completion\<close>

definition onCompletionRequest :: "ICompletionRequest \<Rightarrow> ConsoleWidget \<Rightarrow> outcome" where
  \<comment> \<open>Issues the request; the continuation captures the new value of \<open>_pendingComplete\<close>,
      the request and the model.\<close>
  "onCompletionRequest change s =
     (let code = index (split_lines (cr_currentValue change)) (cr_line change);
          s1 = s\<lparr>pendingComplete := Suc (pendingComplete s)\<rparr>
      in if \<not> completion s1 then Inl (TypeError, s1)
         else Inr (s1\<lparr>kernel_calls := kernel_calls s1 @ [Complete code (cr_ch change)]\<rparr>))"

definition complete_then1 :: "nat \<Rightarrow> ICompleteReply \<Rightarrow> ConsoleWidget \<Rightarrow> ConsoleWidget" where
  \<comment> \<open>The first continuation of a completion request.\<close>
  "complete_then1 captured v s =
     (if model_isDisposed (model s) then s
      else if captured \<noteq> pendingComplete s then s
      else if c_status v \<noteq> ''ok'' then s
      else s\<lparr>model := (model s)\<lparr>options := Some (c_matches v),
             cursor := Some (c_cursor_start v, c_cursor_end v)\<rparr>\<rparr>)"

definition complete_then2 :: "ICompletionRequest \<Rightarrow> ConsoleWidget \<Rightarrow> ConsoleWidget" where
  \<comment> \<open>The second continuation, chained on the first: it runs whenever the first returns.\<close>
  "complete_then2 change s = s\<lparr>model := (model s)\<lparr>original := Some change\<rparr>\<rparr>"

definition complete_then ::
  "nat \<Rightarrow> ICompletionRequest \<Rightarrow> ICompleteReply promise \<Rightarrow> ConsoleWidget \<Rightarrow> ConsoleWidget" where
  \<comment> \<open>A reply to the completion request that captured \<open>captured\<close> and \<open>change\<close>; a rejected
      promise runs neither continuation.\<close>
  "complete_then captured change r s =
     (case r of
        Rejected \<Rightarrow> s
      | Resolved v \<Rightarrow> complete_then2 change (complete_then1 captured v s))"

subsection \<open>History navigation\<close>

definition onEdgeRequest :: "EdgeLocation \<Rightarrow> ConsoleWidget \<Rightarrow> outcome" where
  \<comment> \<open>The document is the one of the editor that sent the signal: the prompt's, the only
      cell whose signals are connected.\<close>
  "onEdgeRequest location s =
     (case history s of
        None \<Rightarrow> Inl (TypeError, s)
      | Some h \<Rightarrow>
         if location = Top then
           (case history_back h of (v, h') \<Rightarrow>
              (case v of
                 None \<Rightarrow> Inr (s\<lparr>history := Some h'\<rparr>)
               | Some val \<Rightarrow>
                  if val = [] then Inr (s\<lparr>history := Some h'\<rparr>)
                  else Inr (s\<lparr>history := Some h',
                     layout := update_last (\<lambda>p. p\<lparr>source := val, doc_cursor := 0\<rparr>) (layout s)\<rparr>)))
         else
           (case history_forward h of (v, h') \<Rightarrow>
              (let text = (case v of None \<Rightarrow> [] | Some val \<Rightarrow> val)
               in Inr (s\<lparr>history := Some h',
                  layout := update_last (\<lambda>p. p\<lparr>source := text, doc_cursor := length text\<rparr>)
                    (layout s)\<rparr>))))"

subsection \<open>Sequences of lifecycle operations\<close>

datatype operation = NewPrompt | Clear | Exec "unit promise"

fun apply_op :: "operation \<Rightarrow> ConsoleWidget \<Rightarrow> outcome" where
  "apply_op NewPrompt s = Inr (newPrompt s)"
| "apply_op Clear s = Inr (clear s)"
| "apply_op (Exec r) s = execute r s"

fun run :: "operation list \<Rightarrow> ConsoleWidget \<Rightarrow> outcome" where
  \<comment> \<open>The operations in order; an operation that throws ends the run.\<close>
  "run [] s = Inr s"
| "run (op # ops) s = (case apply_op op s of Inl e \<Rightarrow> Inl e | Inr s' \<Rightarrow> run ops s')"

definition banner :: cell where
  \<comment> \<open>The banner as the constructor adds it to the layout.\<close>
  "banner = createBanner\<lparr>classes := [BANNER_CLASS], readOnly := True\<rparr>"

definition live_count :: "cell list \<Rightarrow> nat" where
  \<comment> \<open>The number of entries that are not read-only.\<close>
  "live_count l = length (filter (\<lambda>c. \<not> readOnly c) l)"

definition lifecycle :: "ConsoleWidget \<Rightarrow> bool" where
  \<comment> \<open>One entry is not read-only, it is the last, every entry before it is read-only,
      and the first entry is the banner.\<close>
  "lifecycle s =
     (2 \<le> length (layout s) \<and> hd (layout s) = banner \<and> live_count (layout s) = 1
      \<and> \<not> readOnly (last (layout s)) \<and> list_all readOnly (butlast (layout s)))"

definition well_formed :: "ConsoleWidget \<Rightarrow> bool" where
  \<comment> \<open>The banner, read-only entries, a prompt that is not read-only, and a history.\<close>
  "well_formed s =
     (case layout s of
        [] \<Rightarrow> False
      | b # rest \<Rightarrow> b = banner \<and> rest \<noteq> [] \<and> list_all readOnly (butlast rest)
          \<and> \<not> readOnly (last rest) \<and> history s \<noteq> None)"

definition dispose_twice :: "ConsoleWidget \<Rightarrow> outcome" where
  \<comment> \<open>\<open>dispose\<close> called again after \<open>dispose\<close>.\<close>
  "dispose_twice s = (case dispose s of Inl e \<Rightarrow> Inl e | Inr s' \<Rightarrow> dispose s')"

subsection \<open>Example entries, requests and replies\<close>

definition committed :: "string \<Rightarrow> cell" where
  \<comment> \<open>An executed entry holding \<open>text\<close>.\<close>
  "committed text = createPrompt\<lparr>source := text, readOnly := True, trusted := True,
     cell_mimetype := ''text/x-ipython''\<rparr>"

definition live :: "string \<Rightarrow> cell" where
  \<comment> \<open>A prompt in which \<open>text\<close> has been typed.\<close>
  "live text = createPrompt\<lparr>source := text, cell_mimetype := ''text/x-ipython'', signals := True\<rparr>"

definition console_with :: "cell list \<Rightarrow> ConsoleWidget" where
  \<comment> \<open>A console whose layout holds the given cells.\<close>
  "console_with l = constructor\<lparr>layout := l\<rparr>"

definition request_a :: ICompletionRequest where
  "request_a = \<lparr>cr_currentValue = ''im'', cr_line = 0, cr_ch = 2\<rparr>"

definition request_b :: ICompletionRequest where
  "request_b = \<lparr>cr_currentValue = ''imp'', cr_line = 0, cr_ch = 3\<rparr>"

definition reply_ok :: "string list \<Rightarrow> ICompleteReply" where
  "reply_ok ms = \<lparr>c_status = ''ok'', c_matches = ms, c_cursor_start = 0, c_cursor_end = 3\<rparr>"

definition reply_error :: ICompleteReply where
  "reply_error = \<lparr>c_status = ''error'', c_matches = [], c_cursor_start = 0, c_cursor_end = 0\<rparr>"

definition two_requests :: ConsoleWidget where
  \<comment> \<open>A new console after the completion requests \<open>request_a\<close> and \<open>request_b\<close>, in this
      order: they captured the sequence numbers 1 and 2.\<close>
  "two_requests =
     (case onCompletionRequest request_a constructor of
        Inl (e, s) \<Rightarrow> s
      | Inr s \<Rightarrow> (case onCompletionRequest request_b s of Inl (e, s') \<Rightarrow> s' | Inr s' \<Rightarrow> s'))"

definition populated :: ConsoleWidget where
  \<comment> \<open>A new console after \<open>request_a\<close> and its accepted reply: a completion list is shown.\<close>
  "populated =
     (case onCompletionRequest request_a constructor of
        Inl (e, s) \<Rightarrow> s
      | Inr s \<Rightarrow> complete_then 1 request_a (Resolved (reply_ok [''import''])) s)"

definition change_space :: ITextChange where
  \<comment> \<open>A space typed after \<open>im\<close>.\<close>
  "change_space = \<lparr>tc_newValue = ''im '', tc_line = 0, tc_ch = 3, tc_top = 10, tc_left = 20,
     tc_chHeight = 12\<rparr>"

definition refreshing :: ConsoleWidget where
  \<comment> \<open>\<open>populated\<close> after the completion request \<open>request_b\<close>, which captured 2.\<close>
  "refreshing =
     (case onCompletionRequest request_b populated of Inl (e, s) \<Rightarrow> s | Inr s \<Rightarrow> s)"

definition request_c :: ICompletionRequest where
  "request_c = \<lparr>cr_currentValue = ''impo'', cr_line = 0, cr_ch = 4\<rparr>"

definition superseded :: ConsoleWidget where
  \<comment> \<open>\<open>refreshing\<close> after one more completion request, \<open>request_c\<close>, which captured 3:
      the request \<open>request_b\<close> is still in flight and no longer the latest.\<close>
  "superseded =
     (case onCompletionRequest request_c refreshing of Inl (e, s) \<Rightarrow> s | Inr s \<Rightarrow> s)"

definition disposed_model :: ConsoleWidget where
  \<comment> \<open>\<open>refreshing\<close> after the completion model has been disposed with \<open>request_b\<close> in flight.\<close>
  "disposed_model = refreshing\<lparr>model := (model refreshing)\<lparr>model_isDisposed := True\<rparr>\<rparr>"

section \<open>Properties\<close>

subsection \<open>Normalization of inspect replies\<close>

text \<open>
  C8, as stated: the console-text entry is never overwritten if one was present. The
  assignment keeps the old entry only when it is truthy, so an entry that is present
  but empty is replaced by the plain-text entry.
\<close>

theorem processInspectReply_overwrites_empty:
  "[consoleMime \<mapsto> Str [], textMime \<mapsto> Str ''x''] consoleMime \<noteq> None
   \<and> processInspectReply [consoleMime \<mapsto> Str [], textMime \<mapsto> Str ''x''] consoleMime
       \<noteq> [consoleMime \<mapsto> Str [], textMime \<mapsto> Str ''x''] consoleMime"
  by (simp add: processInspectReply_def js_or_def js_get_def truthy_def consoleMime_def
      textMime_def)

text \<open>
  C8, amended: after the normalization the console-text entry is the old console-text
  entry when that was present and not empty, and otherwise the plain-text entry verbatim
  (\<open>undefined\<close> when there is none); every other entry is unchanged; and normalizing twice
  gives the same bundle as normalizing once.
\<close>

theorem processInspectReply_normalizes:
  "processInspectReply b consoleMime =
     Some (if truthy (js_get b consoleMime) then js_get b consoleMime else js_get b textMime)
   \<and> (\<forall>k. k \<noteq> consoleMime \<longrightarrow> processInspectReply b k = b k)
   \<and> processInspectReply (processInspectReply b) = processInspectReply b"
  by (simp add: processInspectReply_def js_or_def js_get_def consoleMime_def textMime_def)

text \<open>C8, an instance: a bundle with a plain-text entry only.\<close>

theorem processInspectReply_normalizes_witness:
  "processInspectReply [textMime \<mapsto> Str ''x''] consoleMime = Some (Str ''x'')
   \<and> processInspectReply [textMime \<mapsto> Str ''x''] textMime = Some (Str ''x'')
   \<and> processInspectReply (processInspectReply [textMime \<mapsto> Str ''x''])
       = processInspectReply [textMime \<mapsto> Str ''x'']"
  using processInspectReply_normalizes [of "[textMime \<mapsto> Str ''x'']"]
  by (simp add: js_get_def truthy_def consoleMime_def textMime_def)

subsection \<open>Serialization\<close>

lemma serialize_loop_drop: "serialize_loop i l out = out @ map toJSON (drop i l)"
proof (induction i l out rule: serialize_loop.induct)
  case (1 i l out)
  show ?case
  proof (cases "i < length l")
    case True
    then have "drop i l = l ! i # drop (Suc i) l" by (simp add: Cons_nth_drop_Suc)
    with 1 True show ?thesis by (subst serialize_loop.simps) simp
  next
    case False
    then show ?thesis by (subst serialize_loop.simps) simp
  qed
qed

lemma serialize_tl: "serialize s = map toJSON (tl (layout s))"
  by (simp add: serialize_def serialize_loop_drop drop_Suc)

text \<open>
  C3, as stated: \<open>serialize\<close> returns the records of the committed entries only. The loop
  runs up to the last child, so the record of the live entry is in the output too.
\<close>

theorem serialize_includes_live:
  "serialize (console_with [banner, committed ''a'', live ''b''])
     \<noteq> map toJSON [committed ''a'']"
  by (simp add: serialize_tl console_with_def)

text \<open>
  C3, amended: for a console with a banner, committed entries and one live entry,
  \<open>serialize\<close> returns the records of all entries after the banner in order, that is of
  the committed entries and then of the live entry; the banner is left out. It is a
  function of the state and returns no state: nothing is changed.
\<close>

theorem serialize_after_banner:
  assumes "layout s = b # cs @ [p]"
  shows "serialize s = map toJSON cs @ [toJSON p]"
  using assms by (simp add: serialize_tl)

text \<open>C3, an instance: one committed entry and the prompt.\<close>

theorem serialize_after_banner_witness:
  "layout (console_with [banner, committed ''a'', live ''b''])
     = banner # [committed ''a''] @ [live ''b'']
   \<and> serialize (console_with [banner, committed ''a'', live ''b''])
       = map toJSON [committed ''a''] @ [toJSON (live ''b'')]"
  using serialize_after_banner [of "console_with [banner, committed ''a'', live ''b'']"
      banner "[committed ''a'']" "live ''b''"]
  by (simp add: console_with_def)

subsection \<open>Clearing\<close>

text \<open>
  The loop of \<open>clear\<close> compares a growing index with a shrinking child count: it stops
  after half of the entries between the banner and the prompt (rounded up) are removed.
\<close>

lemma clear_loop_drop:
  "clear_loop i l = take 1 l @ drop (Suc ((length l - (i + 2) + 1) div 2)) l"
proof (induction i l rule: clear_loop.induct)
  case (1 i l)
  show ?case
  proof (cases "i + 2 < length l")
    case True
    then obtain x y ys where l: "l = x # y # ys" by (cases l; cases "tl l") auto
    have "clear_loop i l = clear_loop (Suc i) (dispose_child 1 l)"
      using True by (subst clear_loop.simps) simp
    also have "\<dots> = take 1 (dispose_child 1 l)
        @ drop (Suc ((length (dispose_child 1 l) - (Suc i + 2) + 1) div 2)) (dispose_child 1 l)"
      using 1 True by simp
    also have "\<dots> = take 1 l @ drop (Suc ((length l - (i + 2) + 1) div 2)) l"
    proof -
      have "(length l - (i + 2) + 1) div 2
              = Suc ((length (x # ys) - (Suc i + 2) + 1) div 2)"
        using True l by simp arith
      then show ?thesis using l by (simp add: dispose_child_def)
    qed
    finally show ?thesis .
  next
    case False
    then have "clear_loop i l = l" by (subst clear_loop.simps) simp
    moreover have "(length l - (i + 2) + 1) div 2 = 0" using False by simp
    ultimately show ?thesis by simp
  qed
qed

lemma clear_layout:
  assumes "layout s = b # cs @ [p]"
  shows "layout (clear s) = b # drop ((length cs + 1) div 2) cs
           @ [p\<lparr>readOnly := True, signals := False\<rparr>,
              createPrompt\<lparr>cell_mimetype := mimetype s, signals := True\<rparr>]"
  using assms
  by (simp add: clear_def newPrompt_def update_last_def clear_loop_drop butlast_append)

text \<open>
  C4: \<open>clear\<close> should remove every committed entry. With two committed entries the loop
  runs once: the first is removed and the second stays in the layout, between the banner
  and the former prompt.
\<close>

theorem clear_keeps_second_entry:
  "layout (clear (console_with [banner, committed ''a'', committed ''b'', live ''c'']))
     = [banner, committed ''b'', (live ''c'')\<lparr>readOnly := True, signals := False\<rparr>,
        createPrompt\<lparr>cell_mimetype := ''text/x-ipython'', signals := True\<rparr>]"
  by (simp add: clear_def newPrompt_def update_last_def clear_loop_drop console_with_def
      constructor_def initialize_def)

subsection \<open>Execution\<close>

lemma update_last_snoc: "update_last f (xs @ [x]) = xs @ [f x]"
  by (simp add: update_last_def)

lemma execute_then_newPrompt: "execute_then r s = newPrompt s"
  by (cases r) (simp_all add: execute_then_def)

text \<open>
  C5: for a console with a prompt \<open>p\<close> and a history, \<open>execute\<close> marks the prompt
  trusted, pushes its text to the history and sends it to the kernel; then, whatever the
  answer \<open>r\<close> of the kernel (resolved or rejected), \<open>newPrompt\<close> runs: the executed entry
  is read-only and a new prompt follows it.
\<close>

theorem execute_advances:
  assumes "layout s = cs @ [p]" and "history s = Some h"
  shows "execute_begin s =
           Inr (s\<lparr>layout := cs @ [p\<lparr>trusted := True\<rparr>],
                  history := Some (push (source p) h),
                  kernel_calls := kernel_calls s @ [Execute (source p)]\<rparr>)
         \<and> execute r s =
           Inr (s\<lparr>layout := cs @ [p\<lparr>trusted := True, readOnly := True, signals := False\<rparr>,
                                 createPrompt\<lparr>cell_mimetype := mimetype s, signals := True\<rparr>],
                  history := Some (push (source p) h),
                  kernel_calls := kernel_calls s @ [Execute (source p)]\<rparr>)"
proof -
  have b: "execute_begin s =
           Inr (s\<lparr>layout := cs @ [p\<lparr>trusted := True\<rparr>],
                  history := Some (push (source p) h),
                  kernel_calls := kernel_calls s @ [Execute (source p)]\<rparr>)"
    using assms by (simp add: execute_begin_def prompt_def update_last_snoc)
  have "execute r s = Inr (newPrompt (s\<lparr>layout := cs @ [p\<lparr>trusted := True\<rparr>],
                  history := Some (push (source p) h),
                  kernel_calls := kernel_calls s @ [Execute (source p)]\<rparr>))"
    by (simp add: execute_def b execute_then_newPrompt)
  then show ?thesis using b by (simp add: newPrompt_def update_last_snoc)
qed

text \<open>C5, an instance: the kernel rejects the execution of the prompt \<open>x\<close>.\<close>

theorem execute_advances_witness:
  "execute Rejected (console_with [banner, live ''x'']) =
     Inr ((console_with [banner, live ''x''])\<lparr>layout := [banner,
            (live ''x'')\<lparr>trusted := True, readOnly := True, signals := False\<rparr>,
            createPrompt\<lparr>cell_mimetype := ''text/x-ipython'', signals := True\<rparr>],
          history := Some (push ''x'' createHistory),
          kernel_calls := [KernelInfo, Execute ''x'']\<rparr>)"
  using execute_advances [of "console_with [banner, live ''x'']" "[banner]" "live ''x''"
      createHistory Rejected]
  by (simp add: console_with_def constructor_def newPrompt_def initialize_def live_def)

subsection \<open>Text changes\<close>

lemma populated_eq:
  "populated = constructor\<lparr>pendingComplete := 1,
      kernel_calls := [KernelInfo, Complete (Some ''im'') 2],
      model := \<lparr>options = Some [''import''], cursor = Some (0, 3), original = Some request_a,
                current = None, model_isDisposed = False\<rparr>\<rparr>"
  by (simp add: populated_def onCompletionRequest_def complete_then_def complete_then1_def
      complete_then2_def constructor_def newPrompt_def initialize_def request_a_def reply_ok_def
      createCompletion_def Let_def)

text \<open>
  C6: for a console that is not disposed and a text change whose line exists, if the
  character before the cursor is absent or whitespace, then \<open>onTextChange\<close> hides the
  tooltip and sets the options, the original request and the cursor range of the
  completion model to null, whatever they were; it sends nothing to the kernel and leaves
  both request counters as they are.
\<close>

theorem onTextChange_whitespace:
  assumes "completion s" and "tooltip s = Some t"
    and "index (split_lines (tc_newValue change)) (tc_line change) = Some line"
    and "char_before line (tc_ch change) = None
         \<or> (\<exists>c. char_before line (tc_ch change) = Some c \<and> is_space c)"
  shows "\<exists>s'. onTextChange change s = Inr s'
           \<and> s' = s\<lparr>tooltip := Some (t\<lparr>hidden := True\<rparr>),
                    model := (model s)\<lparr>options := None, original := None, cursor := None\<rparr>\<rparr>
           \<and> options (model s') = None \<and> original (model s') = None \<and> cursor (model s') = None
           \<and> pendingInspect s' = pendingInspect s \<and> pendingComplete s' = pendingComplete s
           \<and> kernel_calls s' = kernel_calls s"
proof -
  have "\<not> nonspace_before line (tc_ch change)"
    using assms(4) by (auto simp: nonspace_before_def matches_nonspace_def)
  then show ?thesis
    using assms(1-3) by (simp add: onTextChange_def)
qed

text \<open>C6, an instance: a space typed while a completion list is shown.\<close>

theorem onTextChange_whitespace_witness:
  "options (model populated) = Some [''import'']
   \<and> char_before ''im '' (tc_ch change_space) = Some CHR '' '' \<and> is_space CHR '' ''
   \<and> onTextChange change_space populated =
       Inr (populated\<lparr>tooltip := Some (createTooltip\<lparr>hidden := True\<rparr>),
             model := (model populated)\<lparr>options := None, original := None, cursor := None\<rparr>\<rparr>)"
proof -
  have 1: "completion populated" and 2: "tooltip populated = Some createTooltip"
    by (simp_all add: populated_eq constructor_def newPrompt_def initialize_def)
  have 3: "index (split_lines (tc_newValue change_space)) (tc_line change_space) = Some ''im ''"
    by (simp add: change_space_def)
  have 4: "char_before ''im '' (tc_ch change_space) = Some CHR '' ''"
    by (simp add: change_space_def char_before_def numeral_3_eq_3)
  have 5: "is_space CHR '' ''" by (simp add: is_space_def)
  have 6: "char_before ''im '' (tc_ch change_space) = None
         \<or> (\<exists>c. char_before ''im '' (tc_ch change_space) = Some c \<and> is_space c)"
    using 4 5 by simp
  show ?thesis
    using onTextChange_whitespace [OF 1 2 3 6] 4 5 by (simp add: populated_eq)
qed

subsection \<open>History navigation\<close>

text \<open>
  C9: for a console with a history and a prompt \<open>p\<close>. At the top edge the history steps
  back: a value that is not empty replaces the text of the prompt and the cursor goes to
  offset 0; no value, or the empty string, leaves the prompt as it is. At the bottom edge
  the history steps forward: its value, or the empty string when there is none, replaces
  the text and the cursor goes to the end of the new text.
\<close>

theorem onEdgeRequest_navigates:
  assumes "history s = Some h" and "layout s = cs @ [p]"
  shows "(\<forall>val h'. history_back h = (Some val, h') \<and> val \<noteq> [] \<longrightarrow>
            onEdgeRequest Top s =
              Inr (s\<lparr>history := Some h', layout := cs @ [p\<lparr>source := val, doc_cursor := 0\<rparr>]\<rparr>))
       \<and> (\<forall>v h'. history_back h = (v, h') \<and> (v = None \<or> v = Some []) \<longrightarrow>
            onEdgeRequest Top s = Inr (s\<lparr>history := Some h'\<rparr>))
       \<and> (\<forall>v h'. history_forward h = (v, h') \<longrightarrow>
            onEdgeRequest Bottom s =
              Inr (s\<lparr>history := Some h',
                     layout := cs @ [p\<lparr>source := (case v of None \<Rightarrow> [] | Some val \<Rightarrow> val),
                       doc_cursor := length (case v of None \<Rightarrow> [] | Some val \<Rightarrow> val)\<rparr>]\<rparr>))"
  using assms by (auto simp: onEdgeRequest_def update_last_snoc Let_def)

text \<open>
  C9, instances: the top edge with one command in the history, the top edge with an
  empty history, and the bottom edge with the history cursor on the oldest of two commands.
\<close>

theorem onEdgeRequest_navigates_witness:
  "onEdgeRequest Top
      ((console_with [banner, live ''x''])\<lparr>history := Some (push ''ab'' createHistory)\<rparr>)
     = Inr ((console_with [banner, live ''x''])
              \<lparr>history := Some \<lparr>items = [''ab''], hcursor = 0\<rparr>,
               layout := [banner, (live ''x'')\<lparr>source := ''ab'', doc_cursor := 0\<rparr>]\<rparr>)
   \<and> onEdgeRequest Top ((console_with [banner, live ''x''])\<lparr>history := Some createHistory\<rparr>)
     = Inr ((console_with [banner, live ''x''])\<lparr>history := Some createHistory\<rparr>)
   \<and> onEdgeRequest Bottom
      ((console_with [banner, live ''x''])
         \<lparr>history := Some \<lparr>items = [''ab'', ''cd''], hcursor = 0\<rparr>\<rparr>)
     = Inr ((console_with [banner, live ''x''])
              \<lparr>history := Some \<lparr>items = [''ab'', ''cd''], hcursor = 1\<rparr>,
               layout := [banner, (live ''x'')\<lparr>source := ''cd'', doc_cursor := 2\<rparr>]\<rparr>)"
  using
    onEdgeRequest_navigates [of
      "(console_with [banner, live ''x''])\<lparr>history := Some (push ''ab'' createHistory)\<rparr>"
      "push ''ab'' createHistory" "[banner]" "live ''x''"]
    onEdgeRequest_navigates [of
      "(console_with [banner, live ''x''])\<lparr>history := Some createHistory\<rparr>"
      "createHistory" "[banner]" "live ''x''"]
    onEdgeRequest_navigates [of
      "(console_with [banner, live ''x''])
         \<lparr>history := Some \<lparr>items = [''ab'', ''cd''], hcursor = 0\<rparr>\<rparr>"
      "\<lparr>items = [''ab'', ''cd''], hcursor = 0\<rparr>" "[banner]" "live ''x''"]
  by (simp add: console_with_def history_back_def history_forward_def push_def
      createHistory_def)

subsection \<open>Disposal\<close>

text \<open>
  C10: \<open>dispose\<close> on a disposed console returns the console unchanged and throws
  nothing, and for every console \<open>dispose\<close> followed by \<open>dispose\<close> gives what one
  \<open>dispose\<close> gives.
\<close>

theorem dispose_idempotent:
  "dispose_twice s = dispose s \<and> (isDisposed s \<longrightarrow> dispose s = Inr s)"
  by (auto simp: dispose_twice_def dispose_def super_dispose_def Let_def split: option.splits)

text \<open>C10, an instance: a new console, disposed, and disposed again.\<close>

theorem dispose_idempotent_witness:
  "dispose constructor = Inr (constructor\<lparr>tooltip := None, history := None, completion := False,
       model := createCompletion\<lparr>model_isDisposed := True\<rparr>, isDisposed := True\<rparr>)
   \<and> dispose_twice constructor = dispose constructor
   \<and> dispose (constructor\<lparr>tooltip := None, history := None, completion := False,
       model := createCompletion\<lparr>model_isDisposed := True\<rparr>, isDisposed := True\<rparr>)
     = Inr (constructor\<lparr>tooltip := None, history := None, completion := False,
       model := createCompletion\<lparr>model_isDisposed := True\<rparr>, isDisposed := True\<rparr>)"
  using dispose_idempotent [of constructor]
    dispose_idempotent [of "constructor\<lparr>tooltip := None, history := None, completion := False,
       model := createCompletion\<lparr>model_isDisposed := True\<rparr>, isDisposed := True\<rparr>"]
  by (simp add: dispose_def super_dispose_def constructor_def newPrompt_def initialize_def)

subsection \<open>The lifecycle of entries\<close>

lemma banner_readOnly: "readOnly banner"
  by (simp add: banner_def)

lemma well_formed_iff:
  "well_formed s \<longleftrightarrow>
     (\<exists>cs p. layout s = banner # cs @ [p] \<and> list_all readOnly cs \<and> \<not> readOnly p
        \<and> history s \<noteq> None)"
proof
  assume w: "well_formed s"
  then obtain rest where l: "layout s = banner # rest" and r: "rest \<noteq> []"
    by (cases "layout s") (auto simp: well_formed_def)
  from r have "layout s = banner # butlast rest @ [last rest]" using l by simp
  moreover from w l have "list_all readOnly (butlast rest)" "\<not> readOnly (last rest)"
    "history s \<noteq> None" by (simp_all add: well_formed_def)
  ultimately show "\<exists>cs p. layout s = banner # cs @ [p] \<and> list_all readOnly cs \<and> \<not> readOnly p
        \<and> history s \<noteq> None"
    by blast
next
  assume "\<exists>cs p. layout s = banner # cs @ [p] \<and> list_all readOnly cs \<and> \<not> readOnly p
        \<and> history s \<noteq> None"
  then show "well_formed s" by (auto simp: well_formed_def)
qed

lemma well_formed_lifecycle: "well_formed s \<Longrightarrow> lifecycle s"
  by (auto simp: well_formed_iff lifecycle_def live_count_def banner_readOnly butlast_append
      filter_empty_conv list_all_iff)

lemma well_formed_constructor: "well_formed constructor"
  by (simp add: well_formed_def constructor_def newPrompt_def initialize_def update_last_def
      banner_def createPrompt_def createBanner_def)

lemma well_formed_newPrompt:
  assumes "well_formed s" shows "well_formed (newPrompt s)"
proof -
  from assms obtain cs p where l: "layout s = banner # cs @ [p]" and cs: "list_all readOnly cs"
    and h: "history s \<noteq> None" by (auto simp: well_formed_iff)
  have "layout (newPrompt s) = banner # (cs @ [p\<lparr>readOnly := True, signals := False\<rparr>])
          @ [createPrompt\<lparr>cell_mimetype := mimetype s, signals := True\<rparr>]"
    using l update_last_snoc [of _ "banner # cs" p] by (simp add: newPrompt_def)
  moreover have "list_all readOnly (cs @ [p\<lparr>readOnly := True, signals := False\<rparr>])"
    using cs by simp
  moreover have "\<not> readOnly (createPrompt\<lparr>cell_mimetype := mimetype s, signals := True\<rparr>)"
    by (simp add: createPrompt_def)
  moreover have "history (newPrompt s) \<noteq> None" using h by (simp add: newPrompt_def)
  ultimately show ?thesis unfolding well_formed_iff by blast
qed

lemma clear_loop_keeps:
  "l = b # cs @ [p] \<Longrightarrow> \<exists>cs'. clear_loop i l = b # cs' @ [p] \<and> set cs' \<subseteq> set cs"
proof (induction i l arbitrary: cs rule: clear_loop.induct)
  case (1 i l)
  show ?case
  proof (cases "i + 2 < length l")
    case True
    with 1(2) obtain c cs0 where cs: "cs = c # cs0" by (cases cs) auto
    then have d: "dispose_child 1 l = b # cs0 @ [p]" using 1(2) by (simp add: dispose_child_def)
    from 1(1) [OF True d] obtain cs' where
      "clear_loop (Suc i) (dispose_child 1 l) = b # cs' @ [p]" "set cs' \<subseteq> set cs0" by blast
    then show ?thesis using True cs by (subst clear_loop.simps) auto
  next
    case False
    then show ?thesis using 1(2) by (subst clear_loop.simps) auto
  qed
qed

lemma well_formed_clear:
  assumes "well_formed s" shows "well_formed (clear s)"
proof -
  from assms obtain cs p where l: "layout s = banner # cs @ [p]" and cs: "list_all readOnly cs"
    and p: "\<not> readOnly p" and h: "history s \<noteq> None" by (auto simp: well_formed_iff)
  from clear_loop_keeps [OF l, of 0] obtain cs' where
    c: "clear_loop 0 (layout s) = banner # cs' @ [p]" and sub: "set cs' \<subseteq> set cs" by blast
  have "list_all readOnly cs'" using cs sub by (auto simp: list_all_iff)
  then have "well_formed (s\<lparr>layout := clear_loop 0 (layout s)\<rparr>)"
    using c p h unfolding well_formed_iff by auto
  then show ?thesis unfolding clear_def by (rule well_formed_newPrompt)
qed

lemma well_formed_execute:
  assumes "well_formed s" shows "\<exists>s'. execute r s = Inr s' \<and> well_formed s'"
proof -
  from assms obtain cs p h where l: "layout s = banner # cs @ [p]" and cs: "list_all readOnly cs"
    and p: "\<not> readOnly p" and h: "history s = Some h" by (auto simp: well_formed_iff)
  let ?s1 = "s\<lparr>layout := banner # cs @ [p\<lparr>trusted := True\<rparr>],
                history := Some (push (source p) h),
                kernel_calls := kernel_calls s @ [Execute (source p)]\<rparr>"
  have b: "execute_begin s = Inr ?s1"
    using l h update_last_snoc [of _ "banner # cs" p] by (simp add: execute_begin_def prompt_def)
  have "well_formed ?s1" using cs p unfolding well_formed_iff by auto
  then have "well_formed (newPrompt ?s1)" by (rule well_formed_newPrompt)
  moreover have "execute r s = Inr (newPrompt ?s1)"
    by (simp add: execute_def b execute_then_newPrompt)
  ultimately show ?thesis by blast
qed

lemma well_formed_apply_op:
  assumes "well_formed s" shows "\<exists>s'. apply_op op s = Inr s' \<and> well_formed s'"
proof (cases op)
  case NewPrompt
  then show ?thesis using assms by (simp add: well_formed_newPrompt)
next
  case Clear
  then show ?thesis using assms by (simp add: well_formed_clear)
next
  case (Exec r)
  then show ?thesis using well_formed_execute [OF assms] by simp
qed

lemma well_formed_run: "well_formed s \<Longrightarrow> \<exists>s'. run ops s = Inr s' \<and> well_formed s'"
proof (induction ops arbitrary: s)
  case Nil
  then show ?case by simp
next
  case (Cons op ops)
  from well_formed_apply_op [OF Cons.prems] obtain s1 where
    s1: "apply_op op s = Inr s1" "well_formed s1" by blast
  from Cons.IH [OF s1(2)] show ?case using s1(1) by simp
qed

text \<open>
  C7: after the constructor and any sequence of \<open>newPrompt\<close>, \<open>clear\<close> and completed
  \<open>execute\<close> operations, no operation has thrown, the layout holds the banner first and
  at least one more entry, exactly one entry is not read-only, it is the last one, and
  every entry before it is read-only.
\<close>

theorem lifecycle_invariant: "\<exists>s'. run ops constructor = Inr s' \<and> lifecycle s'"
  using well_formed_run [OF well_formed_constructor, of ops] well_formed_lifecycle by blast

lemma run_example:
  "\<exists>s'. run [Exec Rejected, Clear, NewPrompt] constructor = Inr s'
     \<and> map readOnly (layout s') = [True, True, True, False]"
  by (simp add: execute_def execute_begin_def execute_then_def clear_def newPrompt_def
      prompt_def update_last_def constructor_def initialize_def clear_loop_drop
      createPrompt_def createBanner_def)

text \<open>C7, an instance: a rejected execution, then \<open>clear\<close>, then \<open>newPrompt\<close>.\<close>

theorem lifecycle_invariant_witness:
  "\<exists>s'. run [Exec Rejected, Clear, NewPrompt] constructor = Inr s' \<and> lifecycle s'
     \<and> map readOnly (layout s') = [True, True, True, False]"
  using lifecycle_invariant [of "[Exec Rejected, Clear, NewPrompt]"] run_example
  by auto

subsection \<open>Replies to completion and inspect requests\<close>

lemma refreshing_eq:
  "refreshing = constructor\<lparr>pendingComplete := 2,
      kernel_calls := [KernelInfo, Complete (Some ''im'') 2, Complete (Some ''imp'') 3],
      model := \<lparr>options = Some [''import''], cursor = Some (0, 3), original = Some request_a,
                current = None, model_isDisposed = False\<rparr>\<rparr>"
  by (simp add: refreshing_def populated_eq onCompletionRequest_def constructor_def newPrompt_def
      initialize_def request_b_def Let_def)

lemma two_requests_eq:
  "two_requests = constructor\<lparr>pendingComplete := 2,
      kernel_calls := [KernelInfo, Complete (Some ''im'') 2, Complete (Some ''imp'') 3]\<rparr>"
  by (simp add: two_requests_def onCompletionRequest_def constructor_def newPrompt_def
      initialize_def request_a_def request_b_def Let_def)

lemma superseded_eq:
  "superseded = refreshing\<lparr>pendingComplete := 3,
      kernel_calls := [KernelInfo, Complete (Some ''im'') 2, Complete (Some ''imp'') 3,
        Complete (Some ''impo'') 4]\<rparr>"
  by (simp add: superseded_def refreshing_eq onCompletionRequest_def constructor_def
      newPrompt_def initialize_def request_c_def Let_def)

text \<open>
  An inspect reply is applied only when the console is not disposed, the captured number
  is the current value of the counter, and the reply is positive; otherwise nothing changes.
\<close>

lemma inspect_then_bails:
  assumes "isDisposed s \<or> captured \<noteq> pendingInspect s \<or> i_status v \<noteq> ''ok'' \<or> \<not> i_found v"
  shows "inspect_then w captured change (Resolved v) s = Inr s"
  using assms by (auto simp: inspect_then_def)

lemma inspect_then_stale:
  assumes "captured \<noteq> pendingInspect s"
  shows "inspect_then w captured change r s = Inr s"
  using assms by (cases r) (simp_all add: inspect_then_def)

lemma inspect_then_accepted:
  assumes "\<not> isDisposed s" and "captured = pendingInspect s" and "i_status v = ''ok''"
    and "i_found v"
  shows "inspect_then w captured change (Resolved v) s
           = showTooltip w change (processInspectReply (i_data v)) s"
  using assms by (simp add: inspect_then_def)

text \<open>
  A completion reply sets the options and the cursor range only when the model is not
  disposed, the captured number is the current value of the counter, and the status is
  ok. The chained continuation sets the original request in every case.
\<close>

lemma complete_then_accepted:
  assumes "\<not> model_isDisposed (model s)" and "captured = pendingComplete s"
    and "c_status v = ''ok''"
  shows "complete_then captured change (Resolved v) s
           = s\<lparr>model := (model s)\<lparr>options := Some (c_matches v),
                  cursor := Some (c_cursor_start v, c_cursor_end v), original := Some change\<rparr>\<rparr>"
  using assms by (simp add: complete_then_def complete_then1_def complete_then2_def)

lemma complete_then_bails:
  assumes "model_isDisposed (model s) \<or> captured \<noteq> pendingComplete s \<or> c_status v \<noteq> ''ok''"
  shows "complete_then captured change (Resolved v) s
           = s\<lparr>model := (model s)\<lparr>original := Some change\<rparr>\<rparr>"
  using assms by (auto simp: complete_then_def complete_then1_def complete_then2_def)

lemma complete_then_rejected: "complete_then captured change Rejected s = s"
  by (simp add: complete_then_def)

text \<open>
  C1: a reply whose captured number is not the latest issued should change nothing. Two
  completion requests are issued, \<open>request_a\<close> with number 1 and \<open>request_b\<close> with number 2.
  The reply to the second arrives first and is applied. The reply to the first arrives
  after it: its number 1 is not the counter's value 2, yet it replaces the original
  request of the model by \<open>request_a\<close>, next to the options computed for \<open>request_b\<close>.
\<close>

theorem stale_completion_reply_changes_state:
  "pendingComplete two_requests = 2
   \<and> original (model (complete_then 2 request_b (Resolved (reply_ok [''import''])) two_requests))
       = Some request_b
   \<and> original (model (complete_then 1 request_a (Resolved (reply_ok [''im'']))
        (complete_then 2 request_b (Resolved (reply_ok [''import''])) two_requests)))
       = Some request_a
   \<and> options (model (complete_then 1 request_a (Resolved (reply_ok [''im'']))
        (complete_then 2 request_b (Resolved (reply_ok [''import''])) two_requests)))
       = Some [''import'']
   \<and> complete_then 1 request_a (Resolved (reply_ok [''im'']))
        (complete_then 2 request_b (Resolved (reply_ok [''import''])) two_requests)
       \<noteq> complete_then 2 request_b (Resolved (reply_ok [''import''])) two_requests"
proof -
  let ?s3 = "complete_then 2 request_b (Resolved (reply_ok [''import''])) two_requests"
  let ?s4 = "complete_then 1 request_a (Resolved (reply_ok [''im''])) ?s3"
  have p: "pendingComplete two_requests = 2" by (simp add: two_requests_eq)
  have s3: "?s3 = two_requests\<lparr>model := createCompletion\<lparr>options := Some [''import''],
                  cursor := Some (0, 3), original := Some request_b\<rparr>\<rparr>"
    by (simp add: complete_then_def complete_then1_def complete_then2_def two_requests_eq
        reply_ok_def constructor_def newPrompt_def initialize_def createCompletion_def)
  have s4: "?s4 = two_requests\<lparr>model := createCompletion\<lparr>options := Some [''import''],
                  cursor := Some (0, 3), original := Some request_a\<rparr>\<rparr>"
    unfolding s3
    by (simp add: complete_then_def complete_then1_def complete_then2_def two_requests_eq
        reply_ok_def constructor_def newPrompt_def initialize_def createCompletion_def)
  have ne: "request_a \<noteq> request_b" by (simp add: request_a_def request_b_def)
  have "original (model ?s4) \<noteq> original (model ?s3)"
    unfolding s4 unfolding s3 using ne by simp
  then have "?s4 \<noteq> ?s3" by metis
  then show ?thesis using p ne unfolding s4 unfolding s3 by simp
qed

text \<open>
  C2: a completion reply that is rejected, discarded or late for a disposed model should
  leave the completion state as it was. In \<open>refreshing\<close> a list computed for \<open>request_a\<close>
  is shown and \<open>request_b\<close> is in flight with number 2. A reply to \<open>request_b\<close> with status
  error, a reply to \<open>request_b\<close> that arrives after the newer request of \<open>superseded\<close>, and
  a reply to \<open>request_b\<close> that finds the model disposed each replace the original request
  of the model, \<open>request_a\<close>, by \<open>request_b\<close>.
\<close>

theorem bailing_completion_reply_sets_original:
  "original (model refreshing) = Some request_a
   \<and> pendingComplete refreshing = 2 \<and> \<not> model_isDisposed (model refreshing)
   \<and> original (model (complete_then 2 request_b (Resolved reply_error) refreshing))
       = Some request_b
   \<and> original (model superseded) = Some request_a \<and> pendingComplete superseded = 3
   \<and> original (model (complete_then 2 request_b (Resolved (reply_ok [''import''])) superseded))
       = Some request_b
   \<and> original (model disposed_model) = Some request_a
   \<and> model_isDisposed (model disposed_model)
   \<and> original (model (complete_then 2 request_b (Resolved (reply_ok [''import''])) disposed_model))
       = Some request_b
   \<and> request_a \<noteq> request_b"
  by (simp add: complete_then_def complete_then1_def complete_then2_def refreshing_eq
      superseded_eq disposed_model_def reply_error_def reply_ok_def constructor_def
      newPrompt_def initialize_def createCompletion_def request_a_def request_b_def)

end
